theory Spec2Isabelle
  imports Main "HOL-Library.AList"
begin

section \<open>JavaScript strings and the built-ins the handlers call\<close>

text \<open>
  A JavaScript string is a sequence of UTF-16 code units; \<open>length\<close>, \<open>substring\<close>,
  \<open>trim\<close> and \<open>parseInt\<close> all work on code units. A string is therefore a list of
  code-unit values, and \<open>js\<close> embeds an ASCII literal.
\<close>

type_synonym jsstring = "nat list"

definition js :: "string \<Rightarrow> jsstring" where
  "js s = map of_char s"

text \<open>
  ECMAScript \<open>StrWhiteSpaceChar\<close> (WhiteSpace and LineTerminator): TAB, LF, VT, FF, CR,
  SPACE, NBSP, U+1680, U+2000..U+200A, U+2028, U+2029, U+202F, U+205F, U+3000, U+FEFF.
\<close>

definition isStrWhiteSpaceChar :: "nat \<Rightarrow> bool" where
  "isStrWhiteSpaceChar c \<longleftrightarrow>
     c \<in> {0x9, 0xA, 0xB, 0xC, 0xD, 0x20, 0xA0, 0x1680, 0x2028, 0x2029, 0x202F, 0x205F,
          0x3000, 0xFEFF}
     \<or> (0x2000 \<le> c \<and> c \<le> 0x200A)"

text \<open>\<open>String.prototype.trim\<close>: white space removed from both ends.\<close>

definition trim :: "jsstring \<Rightarrow> jsstring" where
  "trim s = rev (dropWhile isStrWhiteSpaceChar (rev (dropWhile isStrWhiteSpaceChar s)))"

text \<open>\<open>s.substring(0, n)\<close>: the first \<open>n\<close> code units, fewer when \<open>s\<close> is shorter.\<close>

definition substring0 :: "nat \<Rightarrow> jsstring \<Rightarrow> jsstring" where
  "substring0 n s = take n s"

definition isDigit :: "nat \<Rightarrow> bool" where
  "isDigit c \<longleftrightarrow> 0x30 \<le> c \<and> c \<le> 0x39"

definition digitsValue :: "jsstring \<Rightarrow> int" where
  "digitsValue ds = foldl (\<lambda>acc d. acc * 10 + int (d - 0x30)) 0 ds"

text \<open>
  A JavaScript number as the handlers use it: \<open>None\<close> is \<open>NaN\<close>, \<open>Some n\<close> the integer
  \<open>n\<close>. \<open>parseInt\<close> rounds a very long digit string to the nearest double; rounding is
  monotone and 0 and 100 are doubles, so the comparisons with 0 and 100 below are the same on the
  exact integer, and the values that pass them are exact. \<open>-0\<close> is identified with \<open>0\<close>.
\<close>

type_synonym jsnumber = "int option"

text \<open>
  \<open>parseInt(s, 10)\<close>: skip leading white space, read an optional sign, take the longest
  prefix of decimal digits (the radix is given, so no \<open>0x\<close> prefix is stripped); no digit
  gives \<open>NaN\<close>, and whatever follows the digits is ignored. A number argument (the initial
  \<open>jerseyInput\<close>) is converted to its string first; the parameter is that string.
\<close>

definition parseInt10 :: "jsstring \<Rightarrow> jsnumber" where
  "parseInt10 inputString =
     (let s = dropWhile isStrWhiteSpaceChar inputString;
          sign = (case s of c # _ \<Rightarrow> if c = 0x2D then - 1 else 1 | [] \<Rightarrow> (1::int));
          s' = (case s of c # r \<Rightarrow> if c = 0x2B \<or> c = 0x2D then r else s | [] \<Rightarrow> s);
          z = takeWhile isDigit s'
      in if z = [] then None else Some (sign * digitsValue z))"

text \<open>Truthiness of a string-or-null value: \<open>null\<close> and the empty string are falsy.\<close>

definition truthy :: "jsstring option \<Rightarrow> bool" where
  "truthy v = (case v of None \<Rightarrow> False | Some s \<Rightarrow> s \<noteq> [])"

text \<open>\<open>v || d\<close> on a string-or-null value \<open>v\<close>.\<close>

definition orElse :: "jsstring option \<Rightarrow> jsstring \<Rightarrow> jsstring" where
  "orElse v d = (case v of None \<Rightarrow> d | Some s \<Rightarrow> if s \<noteq> [] then s else d)"

section \<open>Documents\<close>

text \<open>
  A document of the \<open>players\<close> collection, as \<open>ensureAdminAndSeed\<close> writes it (lines
  108-115 and 127): every document this program writes carries all six fields.
\<close>

record Player =
  p_id :: jsstring
  p_userId :: jsstring
  p_name :: jsstring
  p_jerseyNumber :: int
  p_headshotUrl :: jsstring
  p_role :: jsstring

text \<open>
  The object passed to \<open>handleUpdateProfile\<close>: a partial set of fields. The callers pass
  \<open>{ headshotUrl }\<close>, \<open>{ jerseyNumber }\<close> or \<open>{ name }\<close>.
\<close>

record ProfileUpdates =
  u_name :: "jsstring option"
  u_jerseyNumber :: "int option"
  u_headshotUrl :: "jsstring option"

definition noUpdates :: ProfileUpdates where
  "noUpdates = \<lparr>u_name = None, u_jerseyNumber = None, u_headshotUrl = None\<rparr>"

definition applyUpdates :: "ProfileUpdates \<Rightarrow> Player \<Rightarrow> Player" where
  "applyUpdates u p =
     p\<lparr>p_name := (case u_name u of None \<Rightarrow> p_name p | Some n \<Rightarrow> n),
       p_jerseyNumber := (case u_jerseyNumber u of None \<Rightarrow> p_jerseyNumber p | Some j \<Rightarrow> j),
       p_headshotUrl := (case u_headshotUrl u of None \<Rightarrow> p_headshotUrl p | Some h \<Rightarrow> h)\<rparr>"

text \<open>
  The team-settings document \<open>hub_data\<close>. A merge write can create it with only some of
  its fields, and the listener reads \<open>data[ADMIN_IDS_FIELD] || []\<close>, so every field is
  optional.
\<close>

record HubDoc =
  opponent :: "jsstring option"
  dateTime :: "jsstring option"
  totalPlayers :: "int option"
  captains :: "int option"
  jerseyColor :: "jsstring option"
  coachsMessage :: "jsstring option"
  timestamp :: "jsstring option"
  lastEditor :: "jsstring option"
  admin_user_ids :: "jsstring list option"

definition emptyHubDoc :: HubDoc where
  "emptyHubDoc = \<lparr>opponent = None, dateTime = None, totalPlayers = None, captains = None,
     jerseyColor = None, coachsMessage = None, timestamp = None, lastEditor = None,
     admin_user_ids = None\<rparr>"

text \<open>
  \<open>INITIAL_HUB_DATA\<close> (lines 28-36). Its \<open>timestamp\<close> is the time the module was loaded,
  taken as the parameter \<open>loaded\<close>.
\<close>

definition INITIAL_HUB_DATA :: "jsstring \<Rightarrow> HubDoc" where
  "INITIAL_HUB_DATA loaded =
     \<lparr>opponent = Some (js ''The Go-Getters (Initial Seed)''),
      dateTime = Some (js ''Friday, October 4th at 7:00 PM''),
      totalPlayers = Some 3,
      captains = Some 1,
      jerseyColor = Some (js ''Emerald Green''),
      coachsMessage = Some (js ''Welcome to the unified Team Hub! This message is synced via the cloud. Go to the Roster tab to set your name and number.''),
      timestamp = Some loaded,
      lastEditor = None,
      admin_user_ids = None\<rparr>"

text \<open>\<open>MOCK_PLAYERS\<close> (lines 21-25): name, jersey number, headshot URL, role.\<close>

definition MOCK_PLAYERS :: "(jsstring \<times> int \<times> jsstring \<times> jsstring) list" where
  "MOCK_PLAYERS =
     [(js ''Alex Johnson'', 23, js ''https://placehold.co/100x100/1e40af/ffffff?text=AJ'', js ''Captain''),
      (js ''Maria Garcia'', 11, js ''https://placehold.co/100x100/1d4ed8/ffffff?text=MG'', js ''Forward''),
      (js ''Sam Chen'', 88, js ''https://placehold.co/100x100/3b82f6/ffffff?text=SC'', js ''Defense'')]"

section \<open>The document store\<close>

text \<open>
  The store holds the \<open>players\<close> collection, keyed by document id, and the singleton
  settings document, which may be absent. The collection is an association list: a snapshot
  delivers the documents in some order, and the list fixes one.
\<close>

record Store =
  playersColl :: "(jsstring \<times> Player) list"
  settingsDoc :: "HubDoc option"

text \<open>The writes the program issues, one constructor per call shape in the source.\<close>

datatype storeWrite =
    SetPlayer jsstring Player
  | UpdatePlayer jsstring ProfileUpdates
  | SetSettings HubDoc
  | MergeCoachsMessage jsstring jsstring "jsstring option"
  | ArrayUnionAdmin jsstring
  | ArrayRemoveAdmin jsstring

datatype storeError = DocNotFound | Rejected

text \<open>
  Firestore's \<open>arrayUnion\<close> appends an element the array does not hold yet, and makes a
  field that is not an array the one-element array; \<open>arrayRemove\<close> deletes every
  occurrence, and makes a field that is not an array the empty array.
\<close>

definition arrayUnion :: "jsstring \<Rightarrow> jsstring list option \<Rightarrow> jsstring list" where
  "arrayUnion x field =
     (case field of None \<Rightarrow> [x] | Some xs \<Rightarrow> if x \<in> set xs then xs else xs @ [x])"

definition arrayRemove :: "jsstring \<Rightarrow> jsstring list option \<Rightarrow> jsstring list" where
  "arrayRemove x field = (case field of None \<Rightarrow> [] | Some xs \<Rightarrow> filter (\<lambda>y. y \<noteq> x) xs)"

text \<open>
  What a write does to the store once accepted. \<open>setDoc\<close> creates or replaces;
  \<open>setDoc\<close> with \<open>merge: true\<close> creates the document or overwrites the given fields only;
  \<open>updateDoc\<close> fails on a document that does not exist.
\<close>

fun applyWrite :: "storeWrite \<Rightarrow> Store \<Rightarrow> storeError + Store" where
  "applyWrite (SetPlayer k p) s = Inr (s\<lparr>playersColl := AList.update k p (playersColl s)\<rparr>)"
| "applyWrite (UpdatePlayer k u) s =
     (case map_of (playersColl s) k of
        None \<Rightarrow> Inl DocNotFound
      | Some p \<Rightarrow> Inr (s\<lparr>playersColl := AList.update k (applyUpdates u p) (playersColl s)\<rparr>))"
| "applyWrite (SetSettings d) s = Inr (s\<lparr>settingsDoc := Some d\<rparr>)"
| "applyWrite (MergeCoachsMessage m t e) s =
     Inr (s\<lparr>settingsDoc :=
            Some ((case settingsDoc s of None \<Rightarrow> emptyHubDoc | Some d \<Rightarrow> d)
                    \<lparr>coachsMessage := Some m, timestamp := Some t, lastEditor := e\<rparr>)\<rparr>)"
| "applyWrite (ArrayUnionAdmin x) s =
     (case settingsDoc s of
        None \<Rightarrow> Inl DocNotFound
      | Some d \<Rightarrow>
          Inr (s\<lparr>settingsDoc := Some (d\<lparr>admin_user_ids := Some (arrayUnion x (admin_user_ids d))\<rparr>)\<rparr>))"
| "applyWrite (ArrayRemoveAdmin x) s =
     (case settingsDoc s of
        None \<Rightarrow> Inl DocNotFound
      | Some d \<Rightarrow>
          Inr (s\<lparr>settingsDoc := Some (d\<lparr>admin_user_ids := Some (arrayRemove x (admin_user_ids d))\<rparr>)\<rparr>))"

text \<open>
  The store's side of a request, outside this program: whether a read of the current store is
  served, and whether a write against the current store is accepted (access rules, transient
  failures). A refused request rejects the promise the handler awaits.
\<close>

record Rules =
  readable :: "Store \<Rightarrow> bool"
  writable :: "Store \<Rightarrow> storeWrite \<Rightarrow> bool"

definition permissive :: Rules where
  "permissive = \<lparr>readable = (\<lambda>_. True), writable = (\<lambda>_ _. True)\<rparr>"

definition commit :: "Rules \<Rightarrow> storeWrite \<Rightarrow> Store \<Rightarrow> storeError + Store" where
  "commit rules w s = (if writable rules s w then applyWrite w s else Inl Rejected)"

text \<open>What a handler does besides changing state: the writes it issues and what it logs.\<close>

datatype event = Issued storeWrite | ConsoleWarn string | ConsoleError string | ConsoleLog string

fun issuedWrite :: "event \<Rightarrow> storeWrite option" where
  "issuedWrite (Issued w) = Some w"
| "issuedWrite _ = None"

definition issued :: "event list \<Rightarrow> storeWrite list" where
  "issued evs = List.map_filter issuedWrite evs"

section \<open>The component's state\<close>

datatype Firestore = FirestoreHandle

datatype Auth = AuthHandle

text \<open>
  The \<open>useState\<close> cells of \<open>App\<close> (lines 49-59) that the synchronisation code reads or
  writes; \<open>null\<close> is \<open>None\<close>. The navigation cells \<open>currentView\<close> and \<open>isDetailOpen\<close>
  and the \<open>isUpdating\<close> flags of the editors take no part in any write and are left out.
\<close>

record App =
  db :: "Firestore option"
  auth :: "Auth option"
  userId :: "jsstring option"
  isAuthReady :: bool
  players :: "Player list"
  selectedPlayer :: "Player option"
  adminIds :: "jsstring list"
  hubData :: HubDoc

definition initialApp :: "jsstring \<Rightarrow> App" where
  "initialApp loaded =
     \<lparr>db = None, auth = None, userId = None, isAuthReady = False, players = [],
      selectedPlayer = None, adminIds = [], hubData = INITIAL_HUB_DATA loaded\<rparr>"

text \<open>\<open>const isAdmin = adminIds.includes(userId)\<close> (line 61).\<close>

definition isAdmin :: "App \<Rightarrow> bool" where
  "isAdmin c = (case userId c of None \<Rightarrow> False | Some u \<Rightarrow> u \<in> set (adminIds c))"

section \<open>Identity bootstrap (lines 66-91)\<close>

text \<open>
  The Identity Provider as the effect sees it: whether initialisation throws (before the
  handles are stored, or when the listener is registered), and what each sign-in call does: it
  rejects (\<open>Inl\<close>), or resolves and leaves \<open>firebaseAuth.currentUser\<close> at the given user
  (its \<open>uid\<close>, or \<open>None\<close> for no current user).
\<close>

datatype initOutcome = InitOk | InitThrows | SubscribeThrows

datatype authError = AuthError

record IdentityProvider =
  initialise :: initOutcome
  signInWithCustomToken :: "jsstring \<Rightarrow> authError + jsstring option"
  signInAnonymously :: "authError + jsstring option"

text \<open>
  The body of the effect up to the registration of the listener. The \<open>catch\<close> block sets
  the ready flag and the identity \<open>mock-user\<close>.
\<close>

definition authEffect :: "IdentityProvider \<Rightarrow> App \<Rightarrow> App" where
  "authEffect idp c =
     (case initialise idp of
        InitThrows \<Rightarrow> c\<lparr>isAuthReady := True, userId := Some (js ''mock-user'')\<rparr>
      | SubscribeThrows \<Rightarrow>
          c\<lparr>db := Some FirestoreHandle, auth := Some AuthHandle, isAuthReady := True,
            userId := Some (js ''mock-user'')\<rparr>
      | InitOk \<Rightarrow> c\<lparr>db := Some FirestoreHandle, auth := Some AuthHandle\<rparr>)"

text \<open>
  The listener passed to \<open>onAuthStateChanged\<close> (lines 75-85), run on one notification
  \<open>user\<close>. It is an \<open>async\<close> function with no \<open>try\<close> of its own: when the awaited sign-in
  rejects, the listener's promise rejects and neither \<open>setUserId\<close> nor \<open>setIsAuthReady\<close>
  runs (\<open>Inl\<close>, state unchanged). With a user present, \<open>currentUser\<close> is that user.
\<close>

definition authListener ::
  "jsstring option \<Rightarrow> IdentityProvider \<Rightarrow> jsstring option \<Rightarrow> App \<Rightarrow> authError + App" where
  "authListener initialAuthToken idp user c =
     (let signedIn =
            (if user = None then
               (case initialAuthToken of
                  Some token \<Rightarrow>
                    if token \<noteq> [] then signInWithCustomToken idp token
                    else signInAnonymously idp
                | None \<Rightarrow> signInAnonymously idp)
             else Inr user)
      in case signedIn of
           Inl e \<Rightarrow> Inl e
         | Inr currentUser \<Rightarrow>
             Inr (c\<lparr>userId := Some (orElse currentUser (js ''anonymous'')),
                    isAuthReady := True\<rparr>))"

text \<open>
  A session: the effect, then the listener on each notification the provider delivers, in
  order. A rejected run of the listener leaves the state as it was.
\<close>

fun deliver :: "jsstring option \<Rightarrow> IdentityProvider \<Rightarrow> jsstring option list \<Rightarrow> App \<Rightarrow> App" where
  "deliver tok idp [] c = c"
| "deliver tok idp (user # rest) c =
     (case authListener tok idp user c of
        Inl e \<Rightarrow> deliver tok idp rest c
      | Inr c' \<Rightarrow> deliver tok idp rest c')"

definition bootstrap ::
  "jsstring \<Rightarrow> jsstring option \<Rightarrow> IdentityProvider \<Rightarrow> jsstring option list \<Rightarrow> App" where
  "bootstrap loaded tok idp notifications =
     (let c = authEffect idp (initialApp loaded)
      in if initialise idp = InitOk then deliver tok idp notifications c else c)"

section \<open>Seeding (lines 100-134)\<close>

text \<open>The query \<open>where('userId', '==', userId)\<close> on the players collection.\<close>

definition queryByUserId :: "Store \<Rightarrow> jsstring \<Rightarrow> (jsstring \<times> Player) list" where
  "queryByUserId s uid = filter (\<lambda>(k, p). p_userId p = uid) (playersColl s)"

text \<open>
  The profile of lines 108-115. \<open>newId\<close> is the identifier \<open>doc(playersCollectionRef)\<close>
  generated.
\<close>

definition newPlayer :: "jsstring \<Rightarrow> jsstring \<Rightarrow> Player" where
  "newPlayer newId uid =
     \<lparr>p_id = newId,
      p_userId = uid,
      p_name = js ''New Recruit '' @ substring0 4 uid,
      p_jerseyNumber = 99,
      p_headshotUrl = js ''https://placehold.co/100x100/60a5fa/ffffff?text='' @ substring0 2 uid,
      p_role = js ''New Recruit''\<rparr>"

text \<open>The settings document of line 122: the initial data with the one-element admin list.\<close>

definition seedSettings :: "jsstring \<Rightarrow> jsstring \<Rightarrow> HubDoc" where
  "seedSettings loaded uid = (INITIAL_HUB_DATA loaded)\<lparr>admin_user_ids := Some [uid]\<rparr>"

fun showNat :: "nat \<Rightarrow> jsstring" where
  "showNat n = (if n < 10 then [0x30 + n] else showNat (n div 10) @ [0x30 + n mod 10])"

text \<open>
  Lines 126-127. \<open>rnd\<close> is the string \<open>Math.random().toString(36).substring(2, 9)\<close>
  gave for this player.
\<close>

definition mockPlayerId :: "nat \<Rightarrow> jsstring \<Rightarrow> jsstring" where
  "mockPlayerId index rnd = js ''mock-'' @ showNat index @ js ''-'' @ rnd"

definition mockPlayer :: "jsstring \<Rightarrow> (jsstring \<times> int \<times> jsstring \<times> jsstring) \<Rightarrow> Player" where
  "mockPlayer mockId player =
     (case player of (n, j, h, r) \<Rightarrow>
        \<lparr>p_id = mockId, p_userId = mockId, p_name = n, p_jerseyNumber = j, p_headshotUrl = h,
         p_role = r\<rparr>)"

text \<open>
  \<open>MOCK_PLAYERS.forEach(async ...)\<close>: each callback issues its \<open>setDoc\<close> in turn and
  nobody awaits the callbacks, so a rejected write is an unhandled rejection: the store keeps
  its state, nothing is logged by the \<open>catch\<close>, and the next write is issued all the same.
\<close>

fun seedMockPlayers ::
  "Rules \<Rightarrow> (nat \<Rightarrow> jsstring) \<Rightarrow> (nat \<times> (jsstring \<times> int \<times> jsstring \<times> jsstring)) list \<Rightarrow> Store
     \<Rightarrow> Store \<times> event list" where
  "seedMockPlayers rules rnd [] s = (s, [])"
| "seedMockPlayers rules rnd ((index, player) # rest) s =
     (let mockId = mockPlayerId index (rnd index);
          w = SetPlayer mockId (mockPlayer mockId player);
          s' = (case commit rules w s of Inl e \<Rightarrow> s | Inr s1 \<Rightarrow> s1);
          (s'', evs) = seedMockPlayers rules rnd rest s'
      in (s'', Issued w # evs))"

text \<open>
  Lines 119-128, the branch taken when the probe \<open>getDocs(playersCollectionRef)\<close> comes
  back empty: the settings write, awaited (a rejection goes to the \<open>catch\<close>), then the mock
  players.
\<close>

definition seedHub ::
  "Rules \<Rightarrow> jsstring \<Rightarrow> (nat \<Rightarrow> jsstring) \<Rightarrow> jsstring \<Rightarrow> Store \<Rightarrow> Store \<times> event list" where
  "seedHub rules loaded rnd uid s =
     (let w = SetSettings (seedSettings loaded uid)
      in case commit rules w s of
           Inl e \<Rightarrow> (s, [Issued w, ConsoleError ''Error ensuring user or seeding data:''])
         | Inr s1 \<Rightarrow>
             (let (s2, evs) = seedMockPlayers rules rnd (enumerate 0 MOCK_PLAYERS) s1
              in (s2, Issued w # evs)))"

text \<open>
  \<open>ensureAdminAndSeed\<close>. Each \<open>await\<close> is followed by the next statement on the store the
  awaited call left: the probe of line 120 reads the collection after the \<open>setDoc\<close> of line
  116 has resolved. A refused read or write throws into the \<open>catch\<close> of line 131.
\<close>

definition ensureAdminAndSeed ::
  "Rules \<Rightarrow> jsstring \<Rightarrow> jsstring \<Rightarrow> (nat \<Rightarrow> jsstring) \<Rightarrow> jsstring \<Rightarrow> Store \<Rightarrow> Store \<times> event list" where
  "ensureAdminAndSeed rules loaded newId rnd uid s =
     (if \<not> readable rules s then (s, [ConsoleError ''Error ensuring user or seeding data:''])
      else
        let userDocs = queryByUserId s uid
        in if userDocs = [] then
             (let w = SetPlayer newId (newPlayer newId uid)
              in case commit rules w s of
                   Inl e \<Rightarrow> (s, [Issued w, ConsoleError ''Error ensuring user or seeding data:''])
                 | Inr s1 \<Rightarrow>
                     if \<not> readable rules s1 then
                       (s1, [Issued w, ConsoleError ''Error ensuring user or seeding data:''])
                     else
                       let hubDoc = playersColl s1
                       in if hubDoc = [] then
                            (let (s2, evs) = seedHub rules loaded rnd uid s1 in (s2, Issued w # evs))
                          else (s1, [Issued w]))
           else (s, []))"

section \<open>The listeners (lines 139-163)\<close>

text \<open>
  The roster listener maps each document to \<open>{ id: doc.id, ...doc.data() }\<close>; the spread
  comes second, so the \<open>id\<close> field of the data, which every document carries, is the one
  kept.
\<close>

definition rosterListener :: "Store \<Rightarrow> App \<Rightarrow> App" where
  "rosterListener s c = c\<lparr>players := map (\<lambda>(k, d). d) (playersColl s)\<rparr>"

text \<open>
  The settings listener on a snapshot of the document: \<open>None\<close> is a snapshot whose
  \<open>exists()\<close> is false.
\<close>

definition hubListener :: "jsstring \<Rightarrow> HubDoc option \<Rightarrow> App \<Rightarrow> App \<times> event list" where
  "hubListener loaded docSnapshot c =
     (case docSnapshot of
        Some data \<Rightarrow>
          (c\<lparr>adminIds := (case admin_user_ids data of None \<Rightarrow> [] | Some ids \<Rightarrow> ids),
             hubData := data\<rparr>, [])
      | None \<Rightarrow>
          (c\<lparr>adminIds := [], hubData := INITIAL_HUB_DATA loaded\<rparr>,
           [ConsoleWarn ''Team settings document not found.'']))"

definition subscribeSettings :: "jsstring \<Rightarrow> Store \<Rightarrow> App \<Rightarrow> App \<times> event list" where
  "subscribeSettings loaded s c = hubListener loaded (settingsDoc s) c"

section \<open>Profile self-edit (lines 172-186 and 465-488)\<close>

text \<open>
  \<open>handleUpdateProfile\<close>. It returns nothing in every branch: a missing profile is a
  console warning, a rejected write a console error, and the caller is told of neither.
\<close>

definition handleUpdateProfile ::
  "Rules \<Rightarrow> ProfileUpdates \<Rightarrow> Store \<Rightarrow> App \<Rightarrow> Store \<times> event list" where
  "handleUpdateProfile rules updates s c =
     (if db c = None \<or> \<not> truthy (userId c) then (s, [])
      else
        case find (\<lambda>p. Some (p_userId p) = userId c) (players c) of
          Some userDoc \<Rightarrow>
            (let w = UpdatePlayer (p_id userDoc) updates
             in case commit rules w s of
                  Inl e \<Rightarrow> (s, [Issued w, ConsoleError ''Error updating profile:''])
                | Inr s' \<Rightarrow> (s', [Issued w]))
        | None \<Rightarrow> (s, [ConsoleWarn ''Current user document not found.'']))"



text \<open>
  \<open>handleNameUpdate\<close>, with the content of the input field as \<open>nameInput\<close>: the
  effects of the handler once it has run to its end.
\<close>

definition handleNameUpdate ::
  "Rules \<Rightarrow> jsstring \<Rightarrow> Store \<Rightarrow> App \<Rightarrow> Store \<times> App \<times> event list" where
  "handleNameUpdate rules nameInput s c =
     (let newName = trim nameInput
      in if length newName > 1 then
           (let (s', evs) = handleUpdateProfile rules (noUpdates\<lparr>u_name := Some newName\<rparr>) s c
            in (s',
                c\<lparr>selectedPlayer := map_option (\<lambda>p. p\<lparr>p_name := newName\<rparr>) (selectedPlayer c)\<rparr>,
                evs))
         else (s, c, [ConsoleWarn ''Name cannot be empty.'']))"

text \<open>
  The \<open>disabled\<close> expression of the Save Name button (line 577), without the
  \<open>isUpdating\<close> flag: the button is live for every input that differs from the current name
  and is not empty after trimming.
\<close>

definition saveNameDisabled :: "jsstring \<Rightarrow> Player \<Rightarrow> bool" where
  "saveNameDisabled nameInput selected \<longleftrightarrow> trim nameInput = p_name selected \<or> trim nameInput = []"

section \<open>Administrators and the coach's message (lines 190-236 and 346-360)\<close>

text \<open>\<open>settingsDocRef\<close> is \<open>null\<close> exactly when \<open>db\<close> is; \<open>!id\<close> holds of the empty string.\<close>

definition handleAddAdmin :: "Rules \<Rightarrow> jsstring \<Rightarrow> Store \<Rightarrow> App \<Rightarrow> Store \<times> event list" where
  "handleAddAdmin rules ident s c =
     (if db c = None \<or> ident = [] then (s, [])
      else
        let w = ArrayUnionAdmin ident
        in case commit rules w s of
             Inl e \<Rightarrow> (s, [Issued w, ConsoleError ''Error adding admin:''])
           | Inr s' \<Rightarrow> (s', [Issued w]))"

definition handleRemoveAdmin :: "Rules \<Rightarrow> jsstring \<Rightarrow> Store \<Rightarrow> App \<Rightarrow> Store \<times> event list" where
  "handleRemoveAdmin rules ident s c =
     (if db c = None \<or> ident = [] then (s, [])
      else
        let w = ArrayRemoveAdmin ident
        in case commit rules w s of
             Inl e \<Rightarrow> (s, [Issued w, ConsoleError ''Error removing admin:''])
           | Inr s' \<Rightarrow> (s', [Issued w]))"

text \<open>
  \<open>handleSaveMessage\<close>, with the content of the text area as \<open>messageInput\<close> and the
  time of the click as \<open>now\<close>.
\<close>

definition handleSaveMessage ::
  "Rules \<Rightarrow> jsstring \<Rightarrow> jsstring \<Rightarrow> Store \<Rightarrow> App \<Rightarrow> Store \<times> event list" where
  "handleSaveMessage rules now messageInput s c =
     (let newMessage = trim messageInput
      in if length newMessage = 0 \<or> db c = None then (s, [])
         else
           let w = MergeCoachsMessage newMessage now (userId c)
           in case commit rules w s of
                Inl e \<Rightarrow> (s, [Issued w, ConsoleError ''Error updating coach's message:''])
              | Inr s' \<Rightarrow> (s', [Issued w, ConsoleLog ''Coach's message updated successfully.'']))"

text \<open>
  The administrators a client would read from the store: the listener's
  \<open>data[ADMIN_IDS_FIELD] || []\<close>, and nothing when the document is absent.
\<close>

definition storedAdminIds :: "Store \<Rightarrow> jsstring list" where
  "storedAdminIds s =
     (case settingsDoc s of
        None \<Rightarrow> []
      | Some data \<Rightarrow> (case admin_user_ids data of None \<Rightarrow> [] | Some ids \<Rightarrow> ids))"

text \<open>
  The admin panel renders one row per entry of \<open>adminIds\<close> and, in a row, the remove button
  only under \<open>id !== userId\<close>; the button calls \<open>handleRemoveAdmin(id)\<close>. These are the
  identifiers that have a button.
\<close>

definition removeButtons :: "App \<Rightarrow> jsstring list" where
  "removeButtons c = filter (\<lambda>ident. Some ident \<noteq> userId c) (adminIds c)"

section \<open>Example states\<close>

text \<open>A store and a client in which the identity \<open>u1\<close> owns the profile \<open>d1\<close>.\<close>

definition ann :: Player where
  "ann = \<lparr>p_id = js ''d1'', p_userId = js ''u1'', p_name = js ''Ann'', p_jerseyNumber = 99,
          p_headshotUrl = js ''h'', p_role = js ''New Recruit''\<rparr>"

definition annStore :: Store where
  "annStore = \<lparr>playersColl = [(js ''d1'', ann)], settingsDoc = None\<rparr>"

definition annApp :: App where
  "annApp = \<lparr>db = Some FirestoreHandle, auth = Some AuthHandle, userId = Some (js ''u1''),
     isAuthReady = True, players = [ann], selectedPlayer = Some ann, adminIds = [],
     hubData = emptyHubDoc\<rparr>"

text \<open>The empty store, and the store the seeding branch leaves on it for the identity \<open>u1\<close>.\<close>

definition emptyStore :: Store where
  "emptyStore = \<lparr>playersColl = [], settingsDoc = None\<rparr>"

definition seededStore :: Store where
  "seededStore = fst (seedHub permissive (js ''t0'') (\<lambda>index. js ''abcdefg'') (js ''u1'') emptyStore)"

text \<open>A provider that initialises and then rejects every sign-in.\<close>

definition rejectingProvider :: IdentityProvider where
  "rejectingProvider =
     \<lparr>initialise = InitOk, signInWithCustomToken = (\<lambda>token. Inl AuthError),
      signInAnonymously = Inl AuthError\<rparr>"

text \<open>The client of \<open>u1\<close> with \<open>u1\<close> and \<open>u2\<close> as administrators in its local view.\<close>

definition adminApp :: App where
  "adminApp = annApp\<lparr>adminIds := [js ''u1'', js ''u2'']\<rparr>"

section \<open>Helper facts\<close>

lemma issued_simps [simp]:
  "issued [] = []"
  "issued (Issued w # evs) = w # issued evs"
  "issued (ConsoleWarn m # evs) = issued evs"
  "issued (ConsoleError m # evs) = issued evs"
  "issued (ConsoleLog m # evs) = issued evs"
  by (simp_all add: issued_def List.map_filter_simps)


lemma js_not_Nil: "js (x # xs) \<noteq> []"
  by (simp add: js_def)

lemma trim_A: "trim (js ''A'') = js ''A''"
  by (simp add: trim_def js_def isStrWhiteSpaceChar_def)


lemma length_js: "length (js xs) = length xs"
  by (simp add: js_def)

lemma parse12abc: "parseInt10 (js ''12abc'') = Some 12"
  by (simp add: parseInt10_def js_def isStrWhiteSpaceChar_def isDigit_def digitsValue_def)
lemma parseabc: "parseInt10 (js ''abc'') = None"
  by (simp add: parseInt10_def js_def isStrWhiteSpaceChar_def isDigit_def digitsValue_def)

section \<open>Profile self-edit: the jersey number\<close>







section \<open>Profile self-edit: the name\<close>

text \<open>
  C2. The claim: a name is accepted exactly when it is not empty after trimming. The handler
  tests \<open>newName.length > 1\<close>: the name \<open>A\<close> is not empty after trimming, the Save Name
  button is live for it, and the handler still rejects it, with the warning that the name
  cannot be empty, and issues no write.
\<close>

theorem name_of_one_character_rejected:
  "trim (js ''A'') \<noteq> []
   \<and> \<not> saveNameDisabled (js ''A'') ann
   \<and> handleNameUpdate permissive (js ''A'') annStore annApp
       = (annStore, annApp, [ConsoleWarn ''Name cannot be empty.''])"
proof -
  have "js ''A'' \<noteq> p_name ann" by (simp add: ann_def js_def)
  then show ?thesis
    by (simp add: handleNameUpdate_def saveNameDisabled_def trim_A js_not_Nil length_js)
qed

section \<open>Profile self-edit: the missing profile\<close>




section \<open>Seeding\<close>

lemma update_not_Nil: "AList.update k v al \<noteq> []"
  by (cases al) (auto simp: AList.update.simps)

lemma seedMockPlayers_settingsDoc:
  "settingsDoc (fst (seedMockPlayers rules rnd xs s)) = settingsDoc s"
proof (induction xs arbitrary: s)
  case Nil
  then show ?case by simp
next
  case (Cons x xs)
  obtain index player where x: "x = (index, player)" by (cases x)
  show ?case
    by (simp add: x Let_def case_prod_beta Cons.IH commit_def)
qed

text \<open>
  The first two steps: an identity that owns a profile causes no write; one that owns none has
  its profile written first.
\<close>

lemma ensureAdminAndSeed_existing_profile:
  "queryByUserId s uid \<noteq> [] \<Longrightarrow> fst (ensureAdminAndSeed rules loaded newId rnd uid s) = s
     \<and> issued (snd (ensureAdminAndSeed rules loaded newId rnd uid s)) = []"
  by (simp add: ensureAdminAndSeed_def)

lemma ensureAdminAndSeed_first_write:
  "readable rules s \<Longrightarrow> queryByUserId s uid = [] \<Longrightarrow>
     \<exists>rest. snd (ensureAdminAndSeed rules loaded newId rnd uid s)
               = Issued (SetPlayer newId (newPlayer newId uid)) # rest"
  by (simp add: ensureAdminAndSeed_def Let_def case_prod_beta split: sum.splits)

text \<open>
  The probe of line 120 runs after the profile of line 116 is in the collection, so it never
  comes back empty: whatever the store, \<open>ensureAdminAndSeed\<close> leaves the settings document
  alone and issues no settings write.
\<close>

lemma ensureAdminAndSeed_never_seeds:
  "settingsDoc (fst (ensureAdminAndSeed rules loaded newId rnd uid s)) = settingsDoc s
   \<and> (\<forall>d. Issued (SetSettings d) \<notin> set (snd (ensureAdminAndSeed rules loaded newId rnd uid s)))"
  by (auto simp: ensureAdminAndSeed_def Let_def commit_def update_not_Nil split: sum.splits)

text \<open>
  C3. The claim: when the collection is otherwise empty the client writes the initial settings
  and seeds the example profiles. On the empty store the first client creates its own profile
  and stops there: no settings document, no example profile.
\<close>

theorem first_client_writes_no_settings:
  "ensureAdminAndSeed permissive (js ''t0'') (js ''p1'') (\<lambda>index. js ''abcdefg'') (js ''u1'') emptyStore
     = (\<lparr>playersColl = [(js ''p1'', newPlayer (js ''p1'') (js ''u1''))], settingsDoc = None\<rparr>,
        [Issued (SetPlayer (js ''p1'') (newPlayer (js ''p1'') (js ''u1'')))])"
  by (simp add: ensureAdminAndSeed_def emptyStore_def permissive_def queryByUserId_def commit_def
      update_not_Nil)

lemma in_set_update: "(k, v) \<in> set (AList.update k v al)"
  by (induction al) (auto simp: AList.update.simps)

lemma ensureAdminAndSeed_creates:
  assumes "readable rules s" and "queryByUserId s uid = []"
    and "writable rules s (SetPlayer newId (newPlayer newId uid))"
  shows "fst (ensureAdminAndSeed rules loaded newId rnd uid s)
           = s\<lparr>playersColl := AList.update newId (newPlayer newId uid) (playersColl s)\<rparr>"
    and "issued (snd (ensureAdminAndSeed rules loaded newId rnd uid s))
           = [SetPlayer newId (newPlayer newId uid)]"
  using assms
  by (simp_all add: ensureAdminAndSeed_def Let_def commit_def update_not_Nil)

text \<open>
  C9. When the identity has no profile yet and the store serves the query and accepts the write,
  the roster listener delivers, after \<open>ensureAdminAndSeed\<close>, a profile with jersey number 99,
  the creating identity as owner, the name \<open>New Recruit\<close> followed by the first four code
  units of the identity (so never empty), the placeholder avatar URL ending in the first two,
  and the generated document identifier.
\<close>

theorem first_contact_profile_observed:
  assumes "readable rules s" and "queryByUserId s uid = []"
    and "writable rules s (SetPlayer newId (newPlayer newId uid))"
  shows "\<exists>p \<in> set (players (rosterListener (fst (ensureAdminAndSeed rules loaded newId rnd uid s)) c)).
           p = newPlayer newId uid
           \<and> p_jerseyNumber p = 99
           \<and> p_userId p = uid
           \<and> p_name p = js ''New Recruit '' @ substring0 4 uid
           \<and> p_name p \<noteq> []
           \<and> p_headshotUrl p = js ''https://placehold.co/100x100/60a5fa/ffffff?text='' @ substring0 2 uid
           \<and> p_id p = newId"
proof -
  have "(newId, newPlayer newId uid) \<in> set (AList.update newId (newPlayer newId uid) (playersColl s))"
    by (rule in_set_update)
  then have "newPlayer newId uid \<in> set (players (rosterListener (fst (ensureAdminAndSeed rules loaded newId rnd uid s)) c))"
    by (force simp: ensureAdminAndSeed_creates(1) [OF assms] rosterListener_def)
  moreover have "p_name (newPlayer newId uid) \<noteq> []"
    by (simp add: newPlayer_def js_not_Nil)
  ultimately show ?thesis
    by (intro bexI [of _ "newPlayer newId uid"]) (simp_all add: newPlayer_def)
qed

text \<open>
  The identity \<open>user1234\<close> on the empty store.
\<close>

theorem first_contact_profile_observed_witness:
  "readable permissive emptyStore \<and> queryByUserId emptyStore (js ''user1234'') = []
   \<and> writable permissive emptyStore (SetPlayer (js ''p1'') (newPlayer (js ''p1'') (js ''user1234'')))
   \<and> (\<exists>p \<in> set (players (rosterListener (fst (ensureAdminAndSeed permissive (js ''t0'') (js ''p1'')
                  (\<lambda>index. js ''abcdefg'') (js ''user1234'') emptyStore)) annApp)).
         p_jerseyNumber p = 99 \<and> p_userId p = js ''user1234'' \<and> p_name p = js ''New Recruit user''
         \<and> p_headshotUrl p = js ''https://placehold.co/100x100/60a5fa/ffffff?text=us''
         \<and> p_id p = js ''p1'')"
proof -
  have a: "readable permissive emptyStore" by (simp add: permissive_def)
  have b: "queryByUserId emptyStore (js ''user1234'') = []"
    by (simp add: queryByUserId_def emptyStore_def)
  have c: "writable permissive emptyStore (SetPlayer (js ''p1'') (newPlayer (js ''p1'') (js ''user1234'')))"
    by (simp add: permissive_def)
  have d: "js ''New Recruit '' @ substring0 4 (js ''user1234'') = js ''New Recruit user''"
    by (simp add: js_def substring0_def)
  have e: "js ''https://placehold.co/100x100/60a5fa/ffffff?text='' @ substring0 2 (js ''user1234'')
      = js ''https://placehold.co/100x100/60a5fa/ffffff?text=us''"
    by (simp add: js_def substring0_def)
  from first_contact_profile_observed [OF a b c, of "js ''t0''" "\<lambda>index. js ''abcdefg''" annApp]
  obtain p where "p \<in> set (players (rosterListener (fst (ensureAdminAndSeed permissive (js ''t0'') (js ''p1'')
                  (\<lambda>index. js ''abcdefg'') (js ''user1234'') emptyStore)) annApp))"
    and "p_jerseyNumber p = 99 \<and> p_userId p = js ''user1234''
         \<and> p_name p = js ''New Recruit '' @ substring0 4 (js ''user1234'')
         \<and> p_headshotUrl p = js ''https://placehold.co/100x100/60a5fa/ffffff?text='' @ substring0 2 (js ''user1234'')
         \<and> p_id p = js ''p1''"
    by blast
  then show ?thesis using a b c d e by auto
qed

section \<open>Administrators\<close>

lemma storedAdminIds_seedHub:
  "writable rules s (SetSettings (seedSettings loaded uid)) \<Longrightarrow>
     storedAdminIds (fst (seedHub rules loaded rnd uid s)) = [uid]"
  by (simp add: seedHub_def Let_def commit_def case_prod_beta storedAdminIds_def
      seedMockPlayers_settingsDoc seedSettings_def)

lemma storedAdminIds_handleAddAdmin:
  "storedAdminIds s \<noteq> [] \<Longrightarrow> storedAdminIds (fst (handleAddAdmin rules ident s c)) \<noteq> []"
  by (auto simp: handleAddAdmin_def Let_def commit_def storedAdminIds_def arrayUnion_def
      split: option.splits if_splits)

lemma storedAdminIds_handleSaveMessage:
  "storedAdminIds (fst (handleSaveMessage rules now messageInput s c)) = storedAdminIds s"
  by (auto simp: handleSaveMessage_def Let_def commit_def storedAdminIds_def emptyHubDoc_def
      split: option.splits)

lemma storedAdminIds_handleRemoveAdmin:
  "storedAdminIds (fst (handleRemoveAdmin rules ident s c)) =
     (if db c \<noteq> None \<and> ident \<noteq> [] \<and> writable rules s (ArrayRemoveAdmin ident)
         \<and> settingsDoc s \<noteq> None
      then filter (\<lambda>y. y \<noteq> ident) (storedAdminIds s) else storedAdminIds s)"
  by (auto simp: handleRemoveAdmin_def Let_def commit_def storedAdminIds_def arrayRemove_def
      split: option.splits)

text \<open>
  C4 (as amended). The settings document the seeding branch writes holds exactly the seeding
  identity as administrator. \<open>handleAddAdmin\<close> keeps a non-empty administrator list
  non-empty and \<open>handleSaveMessage\<close> does not touch the list. \<open>handleRemoveAdmin\<close>, when its
  write is applied, deletes every occurrence of the given identifier, with no check of what
  remains: the list stays non-empty exactly when it holds another member.
\<close>

theorem admin_ids_nonempty_amended:
  "(writable rules s (SetSettings (seedSettings loaded uid)) \<longrightarrow>
      storedAdminIds (fst (seedHub rules loaded rnd uid s)) = [uid])
   \<and> (storedAdminIds s \<noteq> [] \<longrightarrow> storedAdminIds (fst (handleAddAdmin rules ident s c)) \<noteq> [])
   \<and> storedAdminIds (fst (handleSaveMessage rules now messageInput s c)) = storedAdminIds s
   \<and> storedAdminIds (fst (handleRemoveAdmin rules ident s c)) =
       (if db c \<noteq> None \<and> ident \<noteq> [] \<and> writable rules s (ArrayRemoveAdmin ident)
           \<and> settingsDoc s \<noteq> None
        then filter (\<lambda>y. y \<noteq> ident) (storedAdminIds s) else storedAdminIds s)"
  using storedAdminIds_seedHub storedAdminIds_handleAddAdmin storedAdminIds_handleSaveMessage
    storedAdminIds_handleRemoveAdmin by blast

lemma seededStore_settings: "settingsDoc seededStore = Some (seedSettings (js ''t0'') (js ''u1''))"
  by (simp add: seededStore_def seedHub_def commit_def permissive_def Let_def case_prod_beta
      seedMockPlayers_settingsDoc)

lemma seededStore_admins: "storedAdminIds seededStore = [js ''u1'']"
  by (simp add: storedAdminIds_def seededStore_settings seedSettings_def)

text \<open>
  The store the seeding branch leaves on the empty store, then each of the three operations.
\<close>

theorem admin_ids_nonempty_amended_witness:
  "writable permissive emptyStore (SetSettings (seedSettings (js ''t0'') (js ''u1'')))
   \<and> storedAdminIds (fst (seedHub permissive (js ''t0'') (\<lambda>index. js ''abcdefg'') (js ''u1'') emptyStore)) = [js ''u1'']
   \<and> storedAdminIds seededStore \<noteq> []
   \<and> storedAdminIds (fst (handleAddAdmin permissive (js ''u2'') seededStore annApp)) \<noteq> []
   \<and> storedAdminIds (fst (handleSaveMessage permissive (js ''t1'') (js ''Go'') seededStore annApp)) = [js ''u1'']
   \<and> storedAdminIds (fst (handleRemoveAdmin permissive (js ''u2'') seededStore annApp)) = [js ''u1'']"
proof -
  have w: "writable permissive emptyStore (SetSettings (seedSettings (js ''t0'') (js ''u1'')))"
    by (simp add: permissive_def)
  have r: "db annApp \<noteq> None \<and> js ''u2'' \<noteq> [] \<and> writable permissive seededStore (ArrayRemoveAdmin (js ''u2''))
      \<and> settingsDoc seededStore \<noteq> None"
    by (simp add: annApp_def js_not_Nil permissive_def seededStore_settings)
  have ne: "js ''u1'' \<noteq> js ''u2''" by (simp add: js_def)
  from admin_ids_nonempty_amended [of permissive emptyStore "js ''t0''" "js ''u1''" "\<lambda>index. js ''abcdefg''"]
  have "storedAdminIds seededStore = [js ''u1'']" using w by (simp add: seededStore_def)
  with admin_ids_nonempty_amended [of permissive seededStore "js ''t0''" "js ''u1''" "\<lambda>index. js ''abcdefg''"
     "js ''u2''" annApp "js ''t1''" "js ''Go''"] w r ne
  show ?thesis by (simp add: seededStore_def)
qed

text \<open>
  After seeding, \<open>u1\<close> is the only administrator; \<open>handleRemoveAdmin\<close> on \<open>u1\<close> leaves
  the list empty.
\<close>

theorem sole_admin_removed_counterexample:
  "storedAdminIds seededStore = [js ''u1'']
   \<and> storedAdminIds (fst (handleRemoveAdmin permissive (js ''u1'') seededStore annApp)) = []"
  by (simp add: storedAdminIds_handleRemoveAdmin seededStore_admins annApp_def js_not_Nil
      permissive_def seededStore_settings)

lemma arrayUnion_idem: "arrayUnion x (Some (arrayUnion x f)) = arrayUnion x f"
  by (auto simp: arrayUnion_def split: option.splits)

lemma set_arrayUnion: "set (arrayUnion x f) = insert x (case f of None \<Rightarrow> {} | Some xs \<Rightarrow> set xs)"
  by (auto simp: arrayUnion_def split: option.splits)

text \<open>
  C5. \<open>handleAddAdmin\<close> twice leaves the store that \<open>handleAddAdmin\<close> once leaves, whatever
  the store accepts; adding an identifier the list already holds changes nothing; and an applied
  write makes the set of administrators the old set with the identifier inserted.
\<close>

theorem handleAddAdmin_idempotent:
  "fst (handleAddAdmin rules ident (fst (handleAddAdmin rules ident s c)) c)
     = fst (handleAddAdmin rules ident s c)
   \<and> (ident \<in> set (storedAdminIds s) \<longrightarrow> fst (handleAddAdmin rules ident s c) = s)
   \<and> (db c \<noteq> None \<and> ident \<noteq> [] \<and> settingsDoc s \<noteq> None \<and> writable rules s (ArrayUnionAdmin ident) \<longrightarrow>
        set (storedAdminIds (fst (handleAddAdmin rules ident s c))) = insert ident (set (storedAdminIds s)))"
proof (intro conjI impI)
  show "fst (handleAddAdmin rules ident (fst (handleAddAdmin rules ident s c)) c)
     = fst (handleAddAdmin rules ident s c)"
    by (auto simp: handleAddAdmin_def Let_def commit_def arrayUnion_idem split: option.splits)
next
  assume "ident \<in> set (storedAdminIds s)"
  then show "fst (handleAddAdmin rules ident s c) = s"
    by (auto simp: handleAddAdmin_def Let_def commit_def storedAdminIds_def arrayUnion_def
        split: option.splits)
next
  assume "db c \<noteq> None \<and> ident \<noteq> [] \<and> settingsDoc s \<noteq> None \<and> writable rules s (ArrayUnionAdmin ident)"
  then show "set (storedAdminIds (fst (handleAddAdmin rules ident s c))) = insert ident (set (storedAdminIds s))"
    by (auto simp: handleAddAdmin_def Let_def commit_def storedAdminIds_def set_arrayUnion
        split: option.splits)
qed

text \<open>
  Adding the present \<open>u1\<close> and the new \<open>u2\<close> to the seeded store.
\<close>

theorem handleAddAdmin_idempotent_witness:
  "js ''u1'' \<in> set (storedAdminIds seededStore)
   \<and> fst (handleAddAdmin permissive (js ''u1'') seededStore annApp) = seededStore
   \<and> db annApp \<noteq> None \<and> js ''u2'' \<noteq> [] \<and> settingsDoc seededStore \<noteq> None
   \<and> writable permissive seededStore (ArrayUnionAdmin (js ''u2''))
   \<and> set (storedAdminIds (fst (handleAddAdmin permissive (js ''u2'') seededStore annApp)))
       = {js ''u1'', js ''u2''}
   \<and> fst (handleAddAdmin permissive (js ''u2'') (fst (handleAddAdmin permissive (js ''u2'') seededStore annApp)) annApp)
       = fst (handleAddAdmin permissive (js ''u2'') seededStore annApp)"
proof -
  have r: "db annApp \<noteq> None \<and> js ''u2'' \<noteq> [] \<and> settingsDoc seededStore \<noteq> None
      \<and> writable permissive seededStore (ArrayUnionAdmin (js ''u2''))"
    by (simp add: annApp_def js_not_Nil permissive_def seededStore_settings)
  from handleAddAdmin_idempotent [of permissive "js ''u1''" seededStore annApp]
    handleAddAdmin_idempotent [of permissive "js ''u2''" seededStore annApp] r seededStore_admins
  show ?thesis by auto
qed

text \<open>
  C10 (as amended). The admin panel has a remove button only for administrators other than the
  session's own identity. \<open>handleRemoveAdmin\<close> compares nothing with the session's identity:
  for every non-empty identifier, the session's own included, and with a database handle, it
  issues the \<open>arrayRemove\<close> write; for the empty identifier, or without a handle, it returns
  at once and issues nothing.
\<close>

theorem remove_admin_guards:
  "(\<forall>ident \<in> set (removeButtons c). Some ident \<noteq> userId c \<and> ident \<in> set (adminIds c))
   \<and> (db c \<noteq> None \<and> ident \<noteq> [] \<longrightarrow>
        issued (snd (handleRemoveAdmin rules ident s c)) = [ArrayRemoveAdmin ident])
   \<and> (db c = None \<or> ident = [] \<longrightarrow> handleRemoveAdmin rules ident s c = (s, []))"
  by (auto simp: removeButtons_def handleRemoveAdmin_def Let_def split: sum.splits)

text \<open>
  The administrator \<open>u1\<close> sees a button for \<open>u2\<close> only, and a direct call with \<open>u1\<close>
  issues the write.
\<close>

theorem remove_admin_guards_witness:
  "removeButtons adminApp = [js ''u2'']
   \<and> Some (js ''u2'') \<noteq> userId adminApp
   \<and> userId adminApp = Some (js ''u1'') \<and> db adminApp \<noteq> None \<and> js ''u1'' \<noteq> []
   \<and> issued (snd (handleRemoveAdmin permissive (js ''u1'') seededStore adminApp))
       = [ArrayRemoveAdmin (js ''u1'')]
   \<and> handleRemoveAdmin permissive [] seededStore adminApp = (seededStore, [])"
proof -
  have a: "userId adminApp = Some (js ''u1'') \<and> db adminApp \<noteq> None \<and> js ''u1'' \<noteq> []"
    by (simp add: adminApp_def annApp_def js_not_Nil)
  have b: "removeButtons adminApp = [js ''u2'']"
    by (simp add: removeButtons_def adminApp_def annApp_def js_def)
  from remove_admin_guards [of adminApp "js ''u1''" permissive seededStore]
    remove_admin_guards [of adminApp "[]" permissive seededStore] a b
  show ?thesis by auto
qed

text \<open>
  A direct call with the empty identifier issues no write.
\<close>

theorem remove_admin_empty_id_counterexample:
  "db adminApp \<noteq> None
   \<and> issued (snd (handleRemoveAdmin permissive [] seededStore adminApp)) = []"
  by (simp add: handleRemoveAdmin_def adminApp_def annApp_def)

section \<open>The settings listener\<close>

text \<open>
  C6. With no settings document in the store the listener receives a snapshot that does not
  exist, sets the administrator list to empty and the dashboard data to \<open>INITIAL_HUB_DATA\<close>,
  and \<open>isAdmin\<close> is false for every identity.
\<close>

theorem absent_settings_grant_nothing:
  assumes "settingsDoc s = None"
  shows "adminIds (fst (subscribeSettings loaded s c)) = []
         \<and> hubData (fst (subscribeSettings loaded s c)) = INITIAL_HUB_DATA loaded
         \<and> (\<forall>u. \<not> isAdmin ((fst (subscribeSettings loaded s c))\<lparr>userId := u\<rparr>))
         \<and> \<not> isAdmin (fst (subscribeSettings loaded s c))"
  using assms by (simp add: subscribeSettings_def hubListener_def isAdmin_def split: option.splits)

text \<open>
  A client that was an administrator is one no longer once the absent document is delivered.
\<close>

theorem absent_settings_grant_nothing_witness:
  "settingsDoc annStore = None
   \<and> adminIds (fst (subscribeSettings (js ''t0'') annStore adminApp)) = []
   \<and> hubData (fst (subscribeSettings (js ''t0'') annStore adminApp)) = INITIAL_HUB_DATA (js ''t0'')
   \<and> isAdmin adminApp
   \<and> \<not> isAdmin (fst (subscribeSettings (js ''t0'') annStore adminApp))"
proof -
  have a: "settingsDoc annStore = None" by (simp add: annStore_def)
  have b: "isAdmin adminApp" by (simp add: isAdmin_def adminApp_def annApp_def)
  from absent_settings_grant_nothing [OF a, of "js ''t0''" adminApp] a b show ?thesis by simp
qed

section \<open>Identity bootstrap\<close>

lemma authListener_rejecting:
  "authListener tok rejectingProvider None c = Inl AuthError"
  by (simp add: authListener_def rejectingProvider_def split: option.splits)

lemma deliver_rejecting:
  "deliver tok rejectingProvider (replicate n None) c = c"
  by (induction n) (simp_all add: authListener_rejecting)

text \<open>
  A provider that rejects both sign-in calls: however many times it reports no user, the
  listener's promise rejects before \<open>setIsAuthReady\<close> and the session is never ready.
\<close>

lemma bootstrap_rejecting_never_ready:
  "\<not> isAuthReady (bootstrap loaded tok rejectingProvider (replicate n None))
   \<and> userId (bootstrap loaded tok rejectingProvider (replicate n None)) = None"
proof -
  have i: "initialise rejectingProvider = InitOk"
    by (simp add: rejectingProvider_def)
  show ?thesis
    by (simp add: bootstrap_def deliver_rejecting i authEffect_def initialApp_def)
qed

text \<open>
  C8. The claim: on every path the system reaches the ready state with at least a sentinel
  identity. When the provider reports no user and rejects the sign-in (anonymous, or by token), the
  ready flag stays false and no identity is set.
\<close>

theorem rejected_sign_in_never_ready:
  "\<not> isAuthReady (bootstrap (js ''t0'') None rejectingProvider [None])
   \<and> userId (bootstrap (js ''t0'') None rejectingProvider [None]) = None
   \<and> \<not> isAuthReady (bootstrap (js ''t0'') (Some (js ''token'')) rejectingProvider [None])
   \<and> userId (bootstrap (js ''t0'') (Some (js ''token'')) rejectingProvider [None]) = None"
  using bootstrap_rejecting_never_ready [of "js ''t0''" None 1]
    bootstrap_rejecting_never_ready [of "js ''t0''" "Some (js ''token'')" 1]
  by simp

end
